theory Spec2Isabelle
  imports Main "HOL-Library.Sublist"
begin

section \<open>The Brewin v1 interpreter (interpreterv1.py)\<close>

text \<open>
  The class \<^verbatim>\<open>Interpreter\<close> walks the tree built by the parser and executes the
  statements of \<^verbatim>\<open>main\<close>. Its methods are embedded as functions that take the
  interpreter object and return it updated; an exception raised by a method is the
  \<open>Inl\<close> branch of its result, paired with the object as it was when the exception
  was raised.
\<close>

subsection \<open>Values and their textual form\<close>

text \<open>
  A value computed by \<^verbatim>\<open>eval\<close> is a Python \<^verbatim>\<open>int\<close> (unbounded), a Python
  \<^verbatim>\<open>str\<close>, or \<^verbatim>\<open>None\<close>.
\<close>

datatype val = Int_val int | Str_val string | None_val

definition digit_char :: "nat \<Rightarrow> char" where
  "digit_char d = char_of (48 + d)"

fun str_nat :: "nat \<Rightarrow> string" where
  "str_nat n = (if n < 10 then [digit_char n] else str_nat (n div 10) @ [digit_char (n mod 10)])"

declare str_nat.simps [simp del]

definition str_int :: "int \<Rightarrow> string" where
  "str_int i = (if i < 0 then CHR ''-'' # str_nat (nat (- i)) else str_nat (nat i))"

text \<open>Python's \<^verbatim>\<open>str(v)\<close> on the three kinds of value.\<close>

fun str :: "val \<Rightarrow> string" where
  "str (Int_val i) = str_int i"
| "str (Str_val t) = t"
| "str None_val = ''None''"

text \<open>Python's \<^verbatim>\<open>isinstance(v, int)\<close>.\<close>

fun isinstance_int :: "val \<Rightarrow> bool" where
  "isinstance_int (Int_val i) = True"
| "isinstance_int (Str_val t) = False"
| "isinstance_int None_val = False"

subsection \<open>Parsing an input token: Python's \<^verbatim>\<open>int(token)\<close>\<close>

text \<open>
  \<^verbatim>\<open>int\<close> on a text strips surrounding whitespace, reads an optional sign and
  then decimal digits, where single underscores may stand between two digits; any other
  text raises \<^verbatim>\<open>ValueError\<close>. Texts are ASCII here: whitespace is the space and
  the characters 9 to 13, and no other character is stripped. The host's bound on the number of
  digits that \<^verbatim>\<open>int\<close> and \<^verbatim>\<open>str\<close> convert (4300 unless configured) is
  left out: numerals are taken to be shorter.
\<close>

definition is_space :: "char \<Rightarrow> bool" where
  "is_space c = ((of_char c :: nat) = 32 \<or> (9 \<le> (of_char c :: nat) \<and> (of_char c :: nat) \<le> 13))"

definition is_digit :: "char \<Rightarrow> bool" where
  "is_digit c = (48 \<le> (of_char c :: nat) \<and> (of_char c :: nat) \<le> 57)"

definition strip :: "string \<Rightarrow> string" where
  "strip t = rev (dropWhile is_space (rev (dropWhile is_space t)))"

fun parse_digits :: "nat \<Rightarrow> string \<Rightarrow> nat option" where
  "parse_digits acc [] = Some acc"
| "parse_digits acc (c # cs) =
     (if is_digit c then parse_digits (10 * acc + (of_char c - 48)) cs
      else if c = CHR ''_'' \<and> cs \<noteq> [] \<and> is_digit (hd cs) then parse_digits acc cs
      else None)"

definition parse_unsigned :: "string \<Rightarrow> nat option" where
  "parse_unsigned t = (if t = [] \<or> \<not> is_digit (hd t) then None else parse_digits 0 t)"

definition python_int :: "string \<Rightarrow> int option" where
  "python_int t =
     (case strip t of
        [] \<Rightarrow> None
      | c # cs \<Rightarrow>
          if c = CHR ''-'' then map_option (\<lambda>n. - int n) (parse_unsigned cs)
          else if c = CHR ''+'' then map_option int (parse_unsigned cs)
          else map_option int (parse_unsigned (c # cs)))"

subsection \<open>The syntax tree\<close>

text \<open>
  A node of the tree is an \<^verbatim>\<open>Element\<close>: a kind (\<^verbatim>\<open>elem_type\<close>) and named
  attributes. One constructor stands for each kind that the interpreter tells apart,
  with the attributes it reads of that kind:
  \<^item> \<open>Int_node\<close>: kind \<^verbatim>\<open>INT_NODE\<close>, attribute \<^verbatim>\<open>val\<close>;
  \<^item> \<open>String_node\<close>: kind \<^verbatim>\<open>STRING_NODE\<close>, attribute \<^verbatim>\<open>val\<close>;
  \<^item> \<open>Qname_node\<close>: kind \<^verbatim>\<open>QUALIFIED_NAME_NODE\<close>, attribute \<^verbatim>\<open>name\<close>;
  \<^item> \<open>Fcall_node\<close>: kind \<^verbatim>\<open>FCALL_NODE\<close>, attributes \<^verbatim>\<open>name\<close> and \<^verbatim>\<open>args\<close>;
  \<^item> \<open>Binop_node\<close>: a binary operator node, whose kind is the operator's own text
    (\<^verbatim>\<open>"+"\<close>, \<^verbatim>\<open>"-"\<close>, or another operator of the grammar), attributes
    \<^verbatim>\<open>op1\<close> and \<^verbatim>\<open>op2\<close>;
  \<^item> \<open>Vardef_node\<close>: kind \<^verbatim>\<open>VAR_DEF_NODE\<close>, attribute \<^verbatim>\<open>name\<close>;
  \<^item> \<open>Assign_node\<close>: kind \<^verbatim>\<open>ASSIGNMENT_NODE\<close>, attributes \<^verbatim>\<open>var\<close> and
    \<^verbatim>\<open>expression\<close>;
  \<^item> \<open>Other_node\<close>: a node of any other kind that the parser builds (a
    conditional, a loop, a return, a literal of another type, a unary operator, ...);
    the interpreter compares its kind with the kinds above, finds none equal, and reads
    none of its attributes.
\<close>

datatype element =
    Int_node int
  | String_node string
  | Qname_node string
  | Fcall_node string "element list"
  | Binop_node string element element
  | Vardef_node string
  | Assign_node string element
  | Other_node

text \<open>
  Modelled from the spec: the function definition node is built by the parser
  (brewparse), which is not part of the sources. A function definition has a name
  (attribute \<^verbatim>\<open>name\<close>), its parameters, and an ordered list of statement nodes
  (attribute \<^verbatim>\<open>statements\<close>); the interpreter reads the name and the statements.
\<close>

datatype func = Func (fn_name: string) (fn_args: "string list") (fn_statements: "element list")

text \<open>
  Modelled from the spec: the program node is built by the parser (brewparse), which is
  not part of the sources. A program is an ordered collection of function definitions
  (attribute \<^verbatim>\<open>functions\<close>).
\<close>

datatype program = Program (prog_functions: "func list")

subsection \<open>The interpreter object\<close>

text \<open>
  The fields of \<^verbatim>\<open>Interpreter\<close> that its methods read or write. \<open>vars\<close> is the
  dictionary \<^verbatim>\<open>self.vars\<close>, kept in insertion order as Python keeps it.
  \<open>output_log\<close> and \<open>inp\<close> are the two channels of the base class: the lines
  written so far and the tokens not yet read. \<^verbatim>\<open>debug_counter\<close>, which no method
  but \<^verbatim>\<open>reset_stats\<close> writes, and the switch \<^verbatim>\<open>trace_output\<close> are left out.
\<close>

record interpreter =
  vars :: "(string \<times> val) list"
  output_log :: "string list"
  inp :: "string list"
  statement_count :: nat
  variable_count :: nat
  is_running :: bool

text \<open>\<^verbatim>\<open>Interpreter(inp=tokens)\<close>: the object as \<^verbatim>\<open>__init__\<close> leaves it.\<close>

definition Interpreter :: "string list \<Rightarrow> interpreter" where
  "Interpreter tokens =
     \<lparr>vars = [], output_log = [], inp = tokens,
      statement_count = 0, variable_count = 0, is_running = False\<rparr>"

datatype error_type = NAME_ERROR | TYPE_ERROR

text \<open>
  What a method can raise: the interpreter's own error, with its kind and message, or a
  failure of the host while reading input.
\<close>

datatype exn =
    Error error_type string
  | ValueError
  | Input_exhausted

type_synonym 'a result = "(exn + 'a) \<times> interpreter"

text \<open>
  Modelled from the spec: \<^verbatim>\<open>InterpreterBase.error\<close> belongs to intbase, which is
  not part of the sources; the methods call it as \<^verbatim>\<open>super().error\<close>. It aborts the
  run at once and notifies the caller with the error kind and a descriptive message.
\<close>

definition super_error :: "error_type \<Rightarrow> string \<Rightarrow> interpreter \<Rightarrow> 'a result" where
  "super_error kind description s = (Inl (Error kind description), s)"

text \<open>
  Modelled from the spec: \<^verbatim>\<open>InterpreterBase.output\<close> belongs to intbase, which is
  not part of the sources; the methods call it as \<^verbatim>\<open>super().output\<close>. It writes
  its argument as one line to the output channel.
\<close>

definition super_output :: "string \<Rightarrow> interpreter \<Rightarrow> interpreter" where
  "super_output line s = s\<lparr>output_log := output_log s @ [line]\<rparr>"

text \<open>
  Modelled from the spec: \<^verbatim>\<open>InterpreterBase.get_input\<close> belongs to intbase, which is
  not part of the sources; the methods call it as \<^verbatim>\<open>super().get_input\<close>. It takes
  exactly one token from the input channel. What the host does when no token is left
  (it blocks, or hands back nothing) is not a result of the call: the model gives
  \<open>None\<close>, and \<open>read_int\<close> below reports \<open>Input_exhausted\<close>.
\<close>

definition super_get_input :: "interpreter \<Rightarrow> string option \<times> interpreter" where
  "super_get_input s = (case inp s of [] \<Rightarrow> (None, s) | t # ts \<Rightarrow> (Some t, s\<lparr>inp := ts\<rparr>))"

text \<open>\<^verbatim>\<open>int(super().get_input())\<close>, the last line of the \<^verbatim>\<open>inputi\<close> branch.\<close>

definition read_int :: "interpreter \<Rightarrow> val result" where
  "read_int s =
     (case super_get_input s of
        (None, s') \<Rightarrow> (Inl Input_exhausted, s')
      | (Some t, s') \<Rightarrow>
          (case python_int t of
             None \<Rightarrow> (Inl ValueError, s')
           | Some n \<Rightarrow> (Inr (Int_val n), s')))"

text \<open>\<^verbatim>\<open>name in self.vars\<close> and \<^verbatim>\<open>self.vars[name] = v\<close>.\<close>

definition in_vars :: "string \<Rightarrow> interpreter \<Rightarrow> bool" where
  "in_vars v s = (map_of (vars s) v \<noteq> None)"

fun dict_set :: "string \<Rightarrow> val \<Rightarrow> (string \<times> val) list \<Rightarrow> (string \<times> val) list" where
  "dict_set k v [] = [(k, v)]"
| "dict_set k v (p # ps) = (if fst p = k then (k, v) # ps else p # dict_set k v ps)"

subsection \<open>Expressions and calls\<close>

text \<open>
  \<^verbatim>\<open>eval\<close> dispatches on the kind of the node in the order of its chain of tests;
  a node that passes none of them reaches the \<^verbatim>\<open>return None\<close> that ends the
  method. In the branch of \<^verbatim>\<open>+\<close> and \<^verbatim>\<open>-\<close> both values are integers once
  the type check has passed, so the last branch of the inner case (again the final
  \<^verbatim>\<open>return None\<close>) is not reached; likewise the lookup of a name that is in the
  dictionary finds a value.

  \<^verbatim>\<open>call_func\<close> is given the attributes \<^verbatim>\<open>name\<close> and \<^verbatim>\<open>args\<close> of the
  call node. In the \<^verbatim>\<open>inputi\<close> branch the pattern \<open>[a]\<close> is the test
  \<^verbatim>\<open>len(args) == 1\<close> together with \<^verbatim>\<open>args[0]\<close>. \<open>eval_args\<close> is the
  generator over \<^verbatim>\<open>args\<close> in the \<^verbatim>\<open>print\<close> branch: the arguments are
  evaluated from left to right, each in the object that the one before has left, and
  the first exception ends the evaluation.
\<close>

fun eval :: "element \<Rightarrow> interpreter \<Rightarrow> val result"
  and call_func :: "string \<Rightarrow> element list \<Rightarrow> interpreter \<Rightarrow> val result"
  and eval_args :: "element list \<Rightarrow> interpreter \<Rightarrow> (val list) result"
where
  "eval (Int_node n) s = (Inr (Int_val n), s)"
| "eval (String_node t) s = (Inr (Str_val t), s)"
| "eval (Qname_node var_name) s =
     (if \<not> in_vars var_name s
      then super_error NAME_ERROR (''Variable '' @ var_name @ '' has not been defined'') s
      else (case map_of (vars s) var_name of
              Some v \<Rightarrow> (Inr v, s)
            | None \<Rightarrow> (Inr None_val, s)))"
| "eval (Fcall_node func_name args) s = call_func func_name args s"
| "eval (Binop_node kind op1 op2) s =
     (if kind = ''+'' \<or> kind = ''-'' then
        (case eval op1 s of
           (Inl e, s1) \<Rightarrow> (Inl e, s1)
         | (Inr left_val, s1) \<Rightarrow>
            (case eval op2 s1 of
               (Inl e, s2) \<Rightarrow> (Inl e, s2)
             | (Inr right_val, s2) \<Rightarrow>
                (if \<not> isinstance_int left_val \<or> \<not> isinstance_int right_val
                 then super_error TYPE_ERROR ''Incompatible types for arithmetic operation'' s2
                 else (case (left_val, right_val) of
                         (Int_val a, Int_val b) \<Rightarrow>
                           (if kind = ''+'' then (Inr (Int_val (a + b)), s2)
                            else (Inr (Int_val (a - b)), s2))
                       | _ \<Rightarrow> (Inr None_val, s2)))))
      else (Inr None_val, s))"
| "eval (Vardef_node var_name) s = (Inr None_val, s)"
| "eval (Assign_node var_name expr) s = (Inr None_val, s)"
| "eval Other_node s = (Inr None_val, s)"
| "call_func func_name args s =
     (if func_name = ''print'' then
        (case eval_args args s of
           (Inl e, s1) \<Rightarrow> (Inl e, s1)
         | (Inr vs, s1) \<Rightarrow> (Inr None_val, super_output (concat (map str vs)) s1))
      else if func_name = ''inputi'' then
        (if length args > 1
         then super_error NAME_ERROR ''No inputi() function found that takes > 1 parameter'' s
         else (case args of
                 [a] \<Rightarrow>
                   (case eval a s of
                      (Inl e, s1) \<Rightarrow> (Inl e, s1)
                    | (Inr v, s1) \<Rightarrow> read_int (super_output (str v) s1))
               | _ \<Rightarrow> read_int s))
      else super_error NAME_ERROR (''Function '' @ func_name @ '' has not been defined'') s)"
| "eval_args [] s = (Inr [], s)"
| "eval_args (a # as) s =
     (case eval a s of
        (Inl e, s1) \<Rightarrow> (Inl e, s1)
      | (Inr v, s1) \<Rightarrow>
         (case eval_args as s1 of
            (Inl e, s2) \<Rightarrow> (Inl e, s2)
          | (Inr vs, s2) \<Rightarrow> (Inr (v # vs), s2)))"

subsection \<open>Statements and the run\<close>

definition def_var :: "string \<Rightarrow> interpreter \<Rightarrow> unit result" where
  "def_var var_name s =
     (if in_vars var_name s
      then super_error NAME_ERROR (''Variable '' @ var_name @ '' defined more than once'') s
      else (Inr (), s\<lparr>vars := dict_set var_name None_val (vars s),
                        variable_count := variable_count s + 1\<rparr>))"

definition assign :: "string \<Rightarrow> element \<Rightarrow> interpreter \<Rightarrow> unit result" where
  "assign var_name expr s =
     (if \<not> in_vars var_name s
      then super_error NAME_ERROR (''Variable '' @ var_name @ '' has not been defined'') s
      else (case eval expr s of
              (Inl e, s1) \<Rightarrow> (Inl e, s1)
            | (Inr v, s1) \<Rightarrow> (Inr (), s1\<lparr>vars := dict_set var_name v (vars s1)\<rparr>)))"

text \<open>
  \<^verbatim>\<open>run_stmt\<close> counts the statement, then dispatches on its kind; a statement that
  is neither a declaration nor an assignment is evaluated as an expression and its value
  dropped. (\<^verbatim>\<open>trace_output\<close> prints the node on the host's console, not on the
  output channel, and is left out.)
\<close>

definition run_stmt :: "element \<Rightarrow> interpreter \<Rightarrow> unit result" where
  "run_stmt stmt s =
     (let s0 = s\<lparr>statement_count := statement_count s + 1\<rparr> in
      case stmt of
        Vardef_node var_name \<Rightarrow> def_var var_name s0
      | Assign_node var_name expr \<Rightarrow> assign var_name expr s0
      | _ \<Rightarrow> (case eval stmt s0 of
                (Inl e, s1) \<Rightarrow> (Inl e, s1)
              | (Inr v, s1) \<Rightarrow> (Inr (), s1)))"

text \<open>The loop \<^verbatim>\<open>for stmt in statements: self.run_stmt(stmt)\<close>.\<close>

fun run_stmts :: "element list \<Rightarrow> interpreter \<Rightarrow> unit result" where
  "run_stmts [] s = (Inr (), s)"
| "run_stmts (stmt # rest) s =
     (case run_stmt stmt s of
        (Inl e, s1) \<Rightarrow> (Inl e, s1)
      | (Inr u, s1) \<Rightarrow> run_stmts rest s1)"

text \<open>The loop of \<^verbatim>\<open>find_main\<close>: the first function whose name is \<^verbatim>\<open>main\<close>.\<close>

fun find_main_loop :: "func list \<Rightarrow> func option" where
  "find_main_loop [] = None"
| "find_main_loop (f # fs) = (if fn_name f = ''main'' then Some f else find_main_loop fs)"

definition find_main :: "program \<Rightarrow> func option" where
  "find_main prog = find_main_loop (prog_functions prog)"

text \<open>
  \<^verbatim>\<open>run\<close>, from the tree that \<^verbatim>\<open>parse_program\<close> returns (the parser is not part
  of the sources).
\<close>

definition run :: "program \<Rightarrow> interpreter \<Rightarrow> unit result" where
  "run ast s =
     (case find_main ast of
        None \<Rightarrow> super_error NAME_ERROR ''No main() function was found'' s
      | Some main \<Rightarrow>
          (case run_stmts (fn_statements main) (s\<lparr>is_running := True\<rparr>) of
             (Inl e, s1) \<Rightarrow> (Inl e, s1)
           | (Inr u, s1) \<Rightarrow> (Inr (), s1\<lparr>is_running := False\<rparr>)))"

subsection \<open>What evaluating an expression can change\<close>

text \<open>
  \<open>only_channels s s'\<close>: the object \<open>s'\<close> differs from \<open>s\<close> at most in its two
  channels, where lines have been appended to the output and tokens taken from the front
  of the input.
\<close>

definition only_channels :: "interpreter \<Rightarrow> interpreter \<Rightarrow> bool" where
  "only_channels s s' =
     (vars s' = vars s \<and> statement_count s' = statement_count s \<and>
      variable_count s' = variable_count s \<and> is_running s' = is_running s \<and>
      prefix (output_log s) (output_log s') \<and> suffix (inp s') (inp s))"

declare call_func.simps [simp del]

section \<open>Properties\<close>

subsection \<open>Evaluating an expression touches only the channels\<close>

lemma only_channels_refl: "only_channels s s"
  by (simp add: only_channels_def)

lemma only_channels_trans: "only_channels s s1 \<Longrightarrow> only_channels s1 s2 \<Longrightarrow> only_channels s s2"
  unfolding only_channels_def by (auto intro: suffix_order.trans)

lemma only_channels_output: "only_channels s (super_output line s)"
  by (simp add: only_channels_def super_output_def)

lemma only_channels_read_int: "read_int s = (r, s') \<Longrightarrow> only_channels s s'"
  by (auto simp: read_int_def super_get_input_def only_channels_def suffix_Cons split: list.splits option.splits)

lemma eval_only_channels:
  "eval e s = (r, s') \<Longrightarrow> only_channels s s'"
  "call_func f args s = (r, s') \<Longrightarrow> only_channels s s'"
  "eval_args args s = (rs, s') \<Longrightarrow> only_channels s s'"
proof (induction e s and f args s and args s arbitrary: r s' and r s' and rs s' rule: eval_call_func_eval_args.induct)
  case (1 n s)
  then show ?case by (auto simp: only_channels_refl)
next
  case (2 t s)
  then show ?case by (auto simp: only_channels_refl)
next
  case (3 var_name s)
  then show ?case by (auto simp: only_channels_refl super_error_def split: if_splits option.splits)
next
  case (4 func_name args s)
  then show ?case by simp
next
  case (5 kind op1 op2 s)
  then show ?case 
    by (auto simp: only_channels_refl super_error_def split: if_splits prod.splits sum.splits val.splits
         intro: only_channels_trans)
next
  case (6 var_name s)
  then show ?case by (auto simp: only_channels_refl)
next
  case (7 var_name expr s)
  then show ?case by (auto simp: only_channels_refl)
next
  case (8 s)
  then show ?case by (auto simp: only_channels_refl)
next
  case (9 func_name args s)
  show ?case
  proof (cases "func_name = ''print''")
    case True
    with 9(1,3) show ?thesis
      by (auto simp: call_func.simps split: prod.splits sum.splits
          intro: only_channels_trans only_channels_output)
  next
    case False
    note np = this
    show ?thesis
    proof (cases "func_name = ''inputi''")
      case False
      with np 9(3) show ?thesis
        by (auto simp: call_func.simps super_error_def only_channels_refl)
    next
      case True
      show ?thesis
      proof (cases "1 < length args")
        case True
        with np \<open>func_name = ''inputi''\<close> 9(3) show ?thesis
          by (auto simp: call_func.simps super_error_def only_channels_refl)
      next
        case False
        show ?thesis
        proof (cases args)
          case Nil
          with np \<open>func_name = ''inputi''\<close> 9(3) show ?thesis
            by (auto simp: call_func.simps dest: only_channels_read_int)
        next
          case (Cons a as)
          with False have as: "as = []" by simp
          obtain r1 s1 where e: "eval a s = (r1, s1)" by (cases "eval a s")
          have c1: "only_channels s s1"
            using 9(2)[OF np \<open>func_name = ''inputi''\<close> False Cons as e] .
          from np \<open>func_name = ''inputi''\<close> 9(3) Cons as e c1 show ?thesis
            by (cases r1)
               (auto simp: call_func.simps dest!: only_channels_read_int
                  intro: only_channels_trans[OF _ only_channels_trans[OF only_channels_output]])
        qed
      qed
    qed
  qed
next
  case (10 s)
  then show ?case by (auto simp: only_channels_refl)
next
  case (11 a as s)
  then show ?case by (auto simp: only_channels_refl split: if_splits prod.splits sum.splits
         intro: only_channels_trans)
qed

subsection \<open>The decimal text of an integer\<close>

text \<open>
  \<^verbatim>\<open>str\<close> of an integer is its decimal numeral: digits only, a minus sign in front
  of a negative number, and \<^verbatim>\<open>int\<close> reads it back.
\<close>

lemma digit_char_is_digit: "d < 10 \<Longrightarrow> is_digit (digit_char d)"
  by (simp add: is_digit_def digit_char_def)

lemma digit_char_value: "d < 10 \<Longrightarrow> of_char (digit_char d) - 48 = d"
  by (simp add: digit_char_def)

lemma str_nat_digits: "\<forall>c\<in>set (str_nat n). is_digit c"
  by (induction n rule: str_nat.induct) (subst str_nat.simps, auto simp: digit_char_is_digit)

lemma str_nat_nonempty: "str_nat n \<noteq> []"
  by (subst str_nat.simps) simp

lemma parse_digits_append:
  "\<forall>c\<in>set xs. is_digit c \<Longrightarrow> parse_digits acc xs = Some a \<Longrightarrow>
   parse_digits acc (xs @ ys) = parse_digits a ys"
  by (induction xs arbitrary: acc) auto

lemma parse_digits_str_nat: "parse_digits 0 (str_nat n) = Some n"
proof (induction n rule: str_nat.induct)
  case (1 n)
  show ?case
  proof (cases "n < 10")
    case True
    then show ?thesis
      by (subst str_nat.simps) (simp add: digit_char_is_digit digit_char_value)
  next
    case False
    with 1 have ih: "parse_digits 0 (str_nat (n div 10)) = Some (n div 10)" by simp
    have "parse_digits 0 (str_nat (n div 10) @ [digit_char (n mod 10)]) =
            parse_digits (n div 10) [digit_char (n mod 10)]"
      by (rule parse_digits_append [OF str_nat_digits ih])
    also have "\<dots> = Some n"
      by (simp add: digit_char_is_digit digit_char_value)
    finally show ?thesis using False by (subst str_nat.simps) simp
  qed
qed

lemma is_digit_not_space: "is_digit c \<Longrightarrow> \<not> is_space c"
  by (auto simp: is_digit_def is_space_def)

lemma strip_id:
  assumes "t \<noteq> []" and "\<not> is_space (hd t)" and "\<not> is_space (last t)"
  shows "strip t = t"
proof -
  have "dropWhile is_space t = t"
    using assms(2) by (simp add: dropWhile_eq_self_iff)
  moreover have "dropWhile is_space (rev t) = rev t"
    using assms(1,3) by (simp add: dropWhile_eq_self_iff hd_rev)
  ultimately show ?thesis by (simp add: strip_def)
qed

lemma parse_unsigned_str_nat: "parse_unsigned (str_nat n) = Some n"
proof -
  have "hd (str_nat n) \<in> set (str_nat n)" by (simp add: str_nat_nonempty)
  with str_nat_digits have "is_digit (hd (str_nat n))" by blast
  then show ?thesis
    by (simp add: parse_unsigned_def str_nat_nonempty parse_digits_str_nat)
qed

lemma python_int_str_int: "python_int (str_int i) = Some i"
proof (cases "i < 0")
  case True
  let ?d = "str_nat (nat (- i))"
  have ne: "?d \<noteq> []" by (rule str_nat_nonempty)
  have "\<not> is_space (last (CHR ''-'' # ?d))"
    using ne str_nat_digits [of "nat (- i)"] by (auto intro!: is_digit_not_space)
  then have "strip (CHR ''-'' # ?d) = CHR ''-'' # ?d"
    by (intro strip_id) (simp_all add: is_space_def)
  moreover have "parse_unsigned ?d = Some (nat (- i))"
    by (rule parse_unsigned_str_nat)
  ultimately show ?thesis using True by (simp add: python_int_def str_int_def)
next
  case False
  let ?d = "str_nat (nat i)"
  obtain c cs where d: "?d = c # cs" using str_nat_nonempty [of "nat i"] by (cases ?d) auto
  have "last ?d \<in> set ?d" by (simp add: str_nat_nonempty)
  with str_nat_digits have l: "is_digit (last ?d)" by blast
  from d str_nat_digits [of "nat i"] have c: "is_digit c" by simp
  from c have pm: "c \<noteq> CHR ''-''" "c \<noteq> CHR ''+''" by (auto simp: is_digit_def)
  from d c have h: "\<not> is_space (hd ?d)" by (simp add: is_digit_not_space)
  have "strip ?d = ?d"
    by (rule strip_id [OF str_nat_nonempty h is_digit_not_space [OF l]])
  moreover have "parse_unsigned ?d = Some (nat i)"
    by (rule parse_unsigned_str_nat)
  ultimately have "python_int ?d = Some (int (nat i))"
    using pm unfolding python_int_def d by simp
  with False show ?thesis by (simp add: str_int_def)
qed

text \<open>
  \<^verbatim>\<open>int\<close> on some tokens: surrounding blanks and a sign are accepted, and single
  underscores between digits; a separator character (28 to 31) is not whitespace, and a
  doubled, leading or trailing underscore, a bare sign and the empty text are refused.
\<close>

lemma python_int_examples:
  "python_int '' 12 '' = Some 12"
  "python_int [CHR 0x09, CHR ''7'', CHR 0x0A] = Some 7"
  "python_int ''+5'' = Some 5"
  "python_int ''-0'' = Some 0"
  "python_int ''1_000'' = Some 1000"
  "python_int [CHR 0x1C, CHR ''5''] = None"
  "python_int [CHR ''7'', CHR 0x1F] = None"
  "python_int ''1__0'' = None"
  "python_int ''_1'' = None"
  "python_int ''1_'' = None"
  "python_int ''- 5'' = None"
  "python_int ''+'' = None"
  "python_int [] = None"
  "python_int ''0x10'' = None"
  by code_simp+

subsection \<open>The dictionary, one statement, a list of statements\<close>

lemma map_of_dict_set: "map_of (dict_set k v ps) = (map_of ps)(k \<mapsto> v)"
  by (induction ps) (auto simp: fun_eq_iff)

lemma dict_set_fresh: "map_of ps k = None \<Longrightarrow> dict_set k v ps = ps @ [(k, v)]"
  by (induction ps) (auto split: if_splits)

lemma in_vars_dict_set: "in_vars w (s\<lparr>vars := dict_set k v (vars s)\<rparr>) = (w = k \<or> in_vars w s)"
  by (simp add: in_vars_def map_of_dict_set)

lemma eval_vars: "eval e s = (r, s') \<Longrightarrow> vars s' = vars s"
  by (drule eval_only_channels(1)) (simp add: only_channels_def)

lemma run_stmt_Vardef:
  "run_stmt (Vardef_node v) s = def_var v (s\<lparr>statement_count := statement_count s + 1\<rparr>)"
  by (simp add: run_stmt_def)

lemma run_stmt_Assign:
  "run_stmt (Assign_node v e) s = assign v e (s\<lparr>statement_count := statement_count s + 1\<rparr>)"
  by (simp add: run_stmt_def)

lemma run_stmt_expression:
  assumes "\<forall>v. stmt \<noteq> Vardef_node v" and "\<forall>v e. stmt \<noteq> Assign_node v e"
  shows "run_stmt stmt s =
    (case eval stmt (s\<lparr>statement_count := statement_count s + 1\<rparr>) of
       (Inl e, s1) \<Rightarrow> (Inl e, s1)
     | (Inr v, s1) \<Rightarrow> (Inr (), s1))"
  using assms by (cases stmt) (simp_all add: run_stmt_def del: eval.simps)

lemma run_stmt_expression_channels:
  assumes "\<forall>v. stmt \<noteq> Vardef_node v" and "\<forall>v e. stmt \<noteq> Assign_node v e"
    and "run_stmt stmt s = (r, s')"
  shows "only_channels (s\<lparr>statement_count := statement_count s + 1\<rparr>) s'"
proof -
  obtain r1 s1 where e: "eval stmt (s\<lparr>statement_count := statement_count s + 1\<rparr>) = (r1, s1)"
    by (cases "eval stmt (s\<lparr>statement_count := statement_count s + 1\<rparr>)")
  from assms(3) e have "s' = s1"
    by (cases r1) (simp_all add: run_stmt_expression [OF assms(1,2)])
  with eval_only_channels(1) [OF e] show ?thesis by simp
qed

lemma run_stmt_vars:
  assumes "run_stmt stmt s = (r, s')"
  shows "vars s' = vars s
    \<or> (\<exists>v. stmt = Vardef_node v \<and> \<not> in_vars v s \<and> r = Inr () \<and>
            vars s' = dict_set v None_val (vars s))
    \<or> (\<exists>v e x. stmt = Assign_node v e \<and> in_vars v s \<and> r = Inr () \<and>
            vars s' = dict_set v x (vars s))"
proof (cases "(\<forall>v. stmt \<noteq> Vardef_node v) \<and> (\<forall>v e. stmt \<noteq> Assign_node v e)")
  case True
  with run_stmt_expression_channels [OF _ _ assms] show ?thesis
    by (simp add: only_channels_def)
next
  case False
  then consider v where "stmt = Vardef_node v" | v e where "stmt = Assign_node v e"
    by blast
  then show ?thesis
  proof cases
    case 1
    with assms show ?thesis
      by (auto simp: run_stmt_Vardef def_var_def super_error_def in_vars_def split: if_splits)
  next
    case 2
    with assms show ?thesis
      by (auto simp: run_stmt_Assign assign_def super_error_def in_vars_def
          split: if_splits prod.splits sum.splits dest!: eval_vars)
  qed
qed

lemma run_stmt_counts:
  assumes "run_stmt stmt s = (r, s')"
  shows "statement_count s' = Suc (statement_count s) \<and> prefix (output_log s) (output_log s')
      \<and> is_running s' = is_running s"
proof (cases "(\<forall>v. stmt \<noteq> Vardef_node v) \<and> (\<forall>v e. stmt \<noteq> Assign_node v e)")
  case True
  with run_stmt_expression_channels [OF _ _ assms] show ?thesis
    by (simp add: only_channels_def)
next
  case False
  then consider v where "stmt = Vardef_node v" | v e where "stmt = Assign_node v e"
    by blast
  then show ?thesis
  proof cases
    case 1
    with assms show ?thesis
      by (auto simp: run_stmt_Vardef def_var_def super_error_def split: if_splits)
  next
    case 2
    with assms show ?thesis
      by (auto simp: run_stmt_Assign assign_def super_error_def only_channels_def
          split: if_splits prod.splits sum.splits dest!: eval_only_channels(1))
  qed
qed

lemma run_stmt_vars_frame:
  assumes "run_stmt stmt s = (r, s')"
  shows "(in_vars w s \<longrightarrow> in_vars w s')
    \<and> (in_vars w s' \<and> \<not> in_vars w s \<longrightarrow> stmt = Vardef_node w)
    \<and> (stmt \<noteq> Vardef_node w \<and> (\<forall>e. stmt \<noteq> Assign_node w e) \<longrightarrow>
          map_of (vars s') w = map_of (vars s) w)
    \<and> (in_vars w s \<and> (\<forall>e. stmt \<noteq> Assign_node w e) \<longrightarrow>
          map_of (vars s') w = map_of (vars s) w)"
  using run_stmt_vars [OF assms]
  by (auto simp: in_vars_def map_of_dict_set split: if_splits)

lemma run_stmts_vars_frame:
  "run_stmts stmts s = (r, s') \<Longrightarrow>
     (in_vars w s \<longrightarrow> in_vars w s')
    \<and> (in_vars w s' \<and> \<not> in_vars w s \<longrightarrow> Vardef_node w \<in> set stmts)
    \<and> (Vardef_node w \<notin> set stmts \<and> (\<forall>e. Assign_node w e \<notin> set stmts) \<longrightarrow>
          map_of (vars s') w = map_of (vars s) w)
    \<and> (in_vars w s \<and> (\<forall>e. Assign_node w e \<notin> set stmts) \<longrightarrow>
          map_of (vars s') w = map_of (vars s) w)"
proof (induction stmts arbitrary: s)
  case Nil
  then show ?case by simp
next
  case (Cons stmt rest)
  obtain r1 s1 where one: "run_stmt stmt s = (r1, s1)" by (cases "run_stmt stmt s")
  note f1 = run_stmt_vars_frame [OF one, of w]
  show ?case
  proof (cases r1)
    case (Inl e)
    with Cons.prems one have "s' = s1" by simp
    with f1 show ?thesis by auto
  next
    case (Inr u)
    with Cons.prems one have "run_stmts rest s1 = (r, s')" by simp
    from Cons.IH [OF this] f1 show ?thesis by auto
  qed
qed

lemma run_stmts_append:
  "run_stmts (xs @ ys) s =
     (case run_stmts xs s of (Inl e, s1) \<Rightarrow> (Inl e, s1) | (Inr u, s1) \<Rightarrow> run_stmts ys s1)"
  by (induction xs arbitrary: s) (auto split: prod.splits sum.splits)

lemma run_stmts_counts:
  "run_stmts stmts s = (r, s') \<Longrightarrow>
     prefix (output_log s) (output_log s') \<and> is_running s' = is_running s
     \<and> statement_count s \<le> statement_count s'
     \<and> (r = Inr () \<longrightarrow> statement_count s' = statement_count s + length stmts)"
proof (induction stmts arbitrary: s)
  case Nil
  then show ?case by simp
next
  case (Cons stmt rest)
  obtain r1 s1 where one: "run_stmt stmt s = (r1, s1)" by (cases "run_stmt stmt s")
  note c1 = run_stmt_counts [OF one]
  show ?case
  proof (cases r1)
    case (Inl e)
    with Cons.prems one have "s' = s1" "r = Inl e" by simp_all
    with c1 show ?thesis by simp
  next
    case (Inr u)
    with Cons.prems one have "run_stmts rest s1 = (r, s')" by simp
    from Cons.IH [OF this] c1 show ?thesis by (auto intro: prefix_order.trans)
  qed
qed

lemma run_stmt_Vardef_ok:
  "run_stmt (Vardef_node v) s = (Inr u, s') \<Longrightarrow> map_of (vars s') v = Some None_val"
  by (auto simp: run_stmt_Vardef def_var_def super_error_def map_of_dict_set split: if_splits)

lemma run_stmts_snoc_Vardef_ok:
  assumes "run_stmts (pre @ [Vardef_node v]) s0 = (Inr u, s1)"
  shows "map_of (vars s1) v = Some None_val"
proof -
  obtain r s where p: "run_stmts pre s0 = (r, s)" by (cases "run_stmts pre s0")
  with assms obtain u' where "run_stmt (Vardef_node v) s = (Inr u', s1)"
    by (cases r; cases "run_stmt (Vardef_node v) s")
       (auto simp: run_stmts_append split: sum.splits)
  then show ?thesis by (rule run_stmt_Vardef_ok)
qed

lemma run_stmts_declared:
  assumes "run_stmts stmts s0 = (Inr u, s)" and "Vardef_node v \<in> set stmts"
  shows "in_vars v s"
proof -
  from assms(2) obtain pre post where sp: "stmts = (pre @ [Vardef_node v]) @ post"
    by (auto simp: in_set_conv_decomp)
  obtain r1 s1 where p: "run_stmts (pre @ [Vardef_node v]) s0 = (r1, s1)"
    by (cases "run_stmts (pre @ [Vardef_node v]) s0")
  from assms(1) p obtain u1 where r1: "r1 = Inr u1" and q: "run_stmts post s1 = (Inr u, s)"
    unfolding sp by (subst (asm) run_stmts_append) (cases r1; simp)
  from run_stmts_snoc_Vardef_ok [OF p [unfolded r1]] have "in_vars v s1"
    by (simp add: in_vars_def)
  with run_stmts_vars_frame [OF q, of v] show ?thesis by simp
qed

lemma run_stmts_chain:
  "k \<le> length stmts \<Longrightarrow>
   \<forall>i<k. run_stmt (stmts ! i) (ss ! i) = (Inr (), ss ! Suc i) \<Longrightarrow>
   run_stmts stmts (ss ! 0) = run_stmts (drop k stmts) (ss ! k)"
proof (induction k)
  case 0
  then show ?case by simp
next
  case (Suc k)
  then have "run_stmts stmts (ss ! 0) = run_stmts (drop k stmts) (ss ! k)" by simp
  moreover from Suc.prems have "drop k stmts = stmts ! k # drop (Suc k) stmts"
    by (simp add: Cons_nth_drop_Suc)
  moreover from Suc.prems have "run_stmt (stmts ! k) (ss ! k) = (Inr (), ss ! Suc k)" by simp
  ultimately show ?case by simp
qed

lemma find_main_loop_None: "(find_main_loop fs = None) = (\<forall>f\<in>set fs. fn_name f \<noteq> ''main'')"
  by (induction fs) auto

lemma find_main_loop_first:
  "\<forall>f\<in>set before. fn_name f \<noteq> ''main'' \<Longrightarrow> fn_name m = ''main'' \<Longrightarrow>
   find_main_loop (before @ m # after) = Some m"
  by (induction before) auto

lemma eval_args_append:
  "eval_args (xs @ ys) s =
     (case eval_args xs s of
        (Inl e, s1) \<Rightarrow> (Inl e, s1)
      | (Inr vs, s1) \<Rightarrow>
          (case eval_args ys s1 of
             (Inl e, s2) \<Rightarrow> (Inl e, s2)
           | (Inr ws, s2) \<Rightarrow> (Inr (vs @ ws), s2)))"
  by (induction xs arbitrary: s) (auto split: prod.splits sum.splits)

lemma eval_args_chain:
  "length ss = Suc (length args) \<Longrightarrow> length vs = length args \<Longrightarrow>
   \<forall>i<length args. eval (args ! i) (ss ! i) = (Inr (vs ! i), ss ! Suc i) \<Longrightarrow>
   eval_args args (ss ! 0) = (Inr vs, last ss)"
proof (induction args arbitrary: ss vs)
  case Nil
  then show ?case by (cases ss) auto
next
  case (Cons a as)
  from Cons.prems(1) obtain s0 ss' where ss: "ss = s0 # ss'" and len: "length ss' = Suc (length as)"
    by (cases ss) auto
  from Cons.prems(2) obtain v vs' where vs: "vs = v # vs'" and lenv: "length vs' = length as"
    by (cases vs) auto
  from Cons.prems(3) ss vs have first: "eval a s0 = (Inr v, ss' ! 0)"
    by fastforce
  have rest: "\<forall>i<length as. eval (as ! i) (ss' ! i) = (Inr (vs' ! i), ss' ! Suc i)"
  proof (intro allI impI)
    fix i assume "i < length as"
    then have "Suc i < length (a # as)" by simp
    with Cons.prems(3) have "eval ((a # as) ! Suc i) (ss ! Suc i) = (Inr (vs ! Suc i), ss ! Suc (Suc i))"
      by blast
    then show "eval (as ! i) (ss' ! i) = (Inr (vs' ! i), ss' ! Suc i)"
      by (simp add: ss vs)
  qed
  from Cons.IH [OF len lenv rest] have "eval_args as (ss' ! 0) = (Inr vs', last ss')" .
  moreover from len have "ss' \<noteq> []" by auto
  ultimately show ?case using first by (simp add: ss vs)
qed

section \<open>The claims\<close>

subsection \<open>The run\<close>

text \<open>
  Claim C1, as amended. \<^verbatim>\<open>run\<close> takes the first function definition whose name is
  \<^verbatim>\<open>main\<close>, whatever its parameters. When no definition has that name it fails
  with a name error whose message is \<^verbatim>\<open>No main() function was found\<close>, and leaves
  the object as it was. Otherwise the statements of that function are executed in order
  on one object: statement \<open>i\<close> starts in the object \<open>ss ! i\<close> that statement
  \<open>i - 1\<close> has left, the first one in the object of the caller marked as running. When
  all \<open>k\<close> statements have been executed without an error the run ends normally in
  the last object, marked as not running; when statement \<open>k\<close> raises an error after
  \<open>k\<close> statements without one, the run ends with that error.
\<close>

theorem run_executes_main_in_order:
  "((\<forall>f\<in>set (prog_functions prog). fn_name f \<noteq> ''main'') \<longrightarrow>
      run prog s = (Inl (Error NAME_ERROR ''No main() function was found''), s))
   \<and> (prog_functions prog = before @ main # after \<and>
       (\<forall>f\<in>set before. fn_name f \<noteq> ''main'') \<and> fn_name main = ''main'' \<and>
       k \<le> length (fn_statements main) \<and> length ss = Suc k \<and>
       ss ! 0 = s\<lparr>is_running := True\<rparr> \<and>
       (\<forall>i<k. run_stmt (fn_statements main ! i) (ss ! i) = (Inr (), ss ! Suc i)) \<longrightarrow>
        find_main prog = Some main
      \<and> (k = length (fn_statements main) \<longrightarrow>
            run prog s = (Inr (), (ss ! k)\<lparr>is_running := False\<rparr>))
      \<and> (k < length (fn_statements main) \<and>
          run_stmt (fn_statements main ! k) (ss ! k) = (Inl e, s') \<longrightarrow>
            run prog s = (Inl e, s')))"
proof -
  have a: "(\<forall>f\<in>set (prog_functions prog). fn_name f \<noteq> ''main'') \<longrightarrow>
      run prog s = (Inl (Error NAME_ERROR ''No main() function was found''), s)"
    by (simp add: run_def find_main_def find_main_loop_None [symmetric] super_error_def)
  have b: "find_main prog = Some main
      \<and> (k = length (fn_statements main) \<longrightarrow>
            run prog s = (Inr (), (ss ! k)\<lparr>is_running := False\<rparr>))
      \<and> (k < length (fn_statements main) \<and>
          run_stmt (fn_statements main ! k) (ss ! k) = (Inl e, s') \<longrightarrow>
            run prog s = (Inl e, s'))"
    if fs: "prog_functions prog = before @ main # after"
      and nm: "\<forall>f\<in>set before. fn_name f \<noteq> ''main''" and m: "fn_name main = ''main''"
      and k: "k \<le> length (fn_statements main)" and s0: "ss ! 0 = s\<lparr>is_running := True\<rparr>"
      and chain: "\<forall>i<k. run_stmt (fn_statements main ! i) (ss ! i) = (Inr (), ss ! Suc i)"
  proof -
    have fm: "find_main prog = Some main"
      by (simp add: find_main_def fs find_main_loop_first [OF nm m])
    have c: "run_stmts (fn_statements main) (s\<lparr>is_running := True\<rparr>) =
               run_stmts (drop k (fn_statements main)) (ss ! k)"
      using run_stmts_chain [OF k chain] s0 by simp
    have fin: "run prog s = (Inr (), (ss ! k)\<lparr>is_running := False\<rparr>)"
      if "k = length (fn_statements main)"
      using that c by (simp add: run_def fm)
    have err: "run prog s = (Inl e, s')"
      if "k < length (fn_statements main)"
        and "run_stmt (fn_statements main ! k) (ss ! k) = (Inl e, s')"
    proof -
      from that(1) have "drop k (fn_statements main) =
          fn_statements main ! k # drop (Suc k) (fn_statements main)"
        by (simp add: Cons_nth_drop_Suc)
      with c that(2) show ?thesis by (simp add: run_def fm)
    qed
    from fm fin err show ?thesis by blast
  qed
  from a b show ?thesis by blast
qed

text \<open>
  A program with a helper in front of two functions called \<^verbatim>\<open>main\<close>: the first
  \<^verbatim>\<open>main\<close> runs, \<^verbatim>\<open>var x; x = 5; print(x);\<close>. A program with the helper only
  has no \<^verbatim>\<open>main\<close>.
\<close>

theorem run_executes_main_in_order_witness:
  "run (Program
         [Func ''helper'' [] [Fcall_node ''print'' [String_node ''no'']],
          Func ''main'' [] [Vardef_node ''x'', Assign_node ''x'' (Int_node 5),
                            Fcall_node ''print'' [Qname_node ''x'']],
          Func ''main'' [] [Fcall_node ''print'' [String_node ''second'']]])
       (Interpreter []) =
     (Inr (), \<lparr>vars = [(''x'', Int_val 5)], output_log = [''5''], inp = [],
               statement_count = 3, variable_count = 1, is_running = False\<rparr>)
   \<and> run (Program [Func ''helper'' [] [Fcall_node ''print'' [String_node ''no'']]])
         (Interpreter []) =
     (Inl (Error NAME_ERROR ''No main() function was found''), Interpreter [])"
proof -
  let ?helper = "Func ''helper'' [] [Fcall_node ''print'' [String_node ''no'']]"
  let ?main = "Func ''main'' [] [Vardef_node ''x'', Assign_node ''x'' (Int_node 5),
                            Fcall_node ''print'' [Qname_node ''x'']]"
  let ?second = "Func ''main'' [] [Fcall_node ''print'' [String_node ''second'']]"
  let ?sa = "\<lparr>vars = [], output_log = [], inp = [],
               statement_count = 0, variable_count = 0, is_running = True\<rparr>"
  let ?sb = "\<lparr>vars = [(''x'', None_val)], output_log = [], inp = [],
               statement_count = 1, variable_count = 1, is_running = True\<rparr>"
  let ?sc = "\<lparr>vars = [(''x'', Int_val 5)], output_log = [], inp = [],
               statement_count = 2, variable_count = 1, is_running = True\<rparr>"
  let ?sd = "\<lparr>vars = [(''x'', Int_val 5)], output_log = [''5''], inp = [],
               statement_count = 3, variable_count = 1, is_running = True\<rparr>"
  have st0: "run_stmt (Vardef_node ''x'') ?sa = (Inr (), ?sb)" by code_simp
  have st1: "run_stmt (Assign_node ''x'' (Int_node 5)) ?sb = (Inr (), ?sc)" by code_simp
  have st2: "run_stmt (Fcall_node ''print'' [Qname_node ''x'']) ?sc = (Inr (), ?sd)" by code_simp
  have chain: "\<forall>i<3. run_stmt (fn_statements ?main ! i) ([?sa, ?sb, ?sc, ?sd] ! i) =
                  (Inr (), [?sa, ?sb, ?sc, ?sd] ! Suc i)"
    using st0 st1 st2 by (simp add: numeral_3_eq_3 All_less_Suc)
  have found: "run (Program [?helper, ?main, ?second]) (Interpreter []) =
                 (Inr (), ([?sa, ?sb, ?sc, ?sd] ! 3)\<lparr>is_running := False\<rparr>)"
    using run_executes_main_in_order [of "Program [?helper, ?main, ?second]" "Interpreter []"
        "[?helper]" ?main "[?second]" 3 "[?sa, ?sb, ?sc, ?sd]" ValueError ?sd] chain
    by (simp add: Interpreter_def)
  have absent: "run (Program [?helper]) (Interpreter []) =
                 (Inl (Error NAME_ERROR ''No main() function was found''), Interpreter [])"
    using run_executes_main_in_order [of "Program [?helper]" "Interpreter []"
        "[]" ?helper "[]" 0 "[]" ValueError ?sd]
    by simp
  from found absent show ?thesis by (simp add: numeral_3_eq_3)
qed

text \<open>
  The only function of this program is called \<^verbatim>\<open>main\<close> and takes a parameter: no
  function called \<^verbatim>\<open>main\<close> takes no parameters, yet the run does not fail, and
  executes the body.
\<close>

theorem run_main_with_parameter_counterexample:
  "find_main (Program [Func ''main'' [''a''] [Fcall_node ''print'' [String_node ''x'']]]) =
     Some (Func ''main'' [''a''] [Fcall_node ''print'' [String_node ''x'']])
   \<and> fn_args (Func ''main'' [''a''] [Fcall_node ''print'' [String_node ''x'']]) = [''a'']
   \<and> run (Program [Func ''main'' [''a''] [Fcall_node ''print'' [String_node ''x'']]])
         (Interpreter []) =
     (Inr (), \<lparr>vars = [], output_log = [''x''], inp = [],
               statement_count = 1, variable_count = 0, is_running = False\<rparr>)"
  by code_simp

subsection \<open>Binary \<^verbatim>\<open>+\<close> and \<^verbatim>\<open>-\<close>\<close>

text \<open>
  Claim C2. For a binary \<^verbatim>\<open>+\<close> or \<^verbatim>\<open>-\<close> node the left operand is evaluated
  first and the right operand second, in the object that the left operand leaves: an
  error of the left operand ends the evaluation before the right operand is touched, and
  an error of the right operand ends it after the left one. When both operand values are
  integers the result is their sum for \<^verbatim>\<open>+\<close> and left minus right for
  \<^verbatim>\<open>-\<close>; when either value is not an integer (a string or \<^verbatim>\<open>None\<close>) the
  evaluation fails with a type error.
\<close>

theorem binop_plus_minus:
  assumes "kind = ''+'' \<or> kind = ''-''"
  shows "(eval op1 s = (Inl e, s1) \<longrightarrow> eval (Binop_node kind op1 op2) s = (Inl e, s1))
    \<and> (eval op1 s = (Inr left_val, s1) \<and> eval op2 s1 = (Inl e, s2) \<longrightarrow>
          eval (Binop_node kind op1 op2) s = (Inl e, s2))
    \<and> (eval op1 s = (Inr (Int_val a), s1) \<and> eval op2 s1 = (Inr (Int_val b), s2) \<longrightarrow>
          eval (Binop_node kind op1 op2) s =
            (Inr (Int_val (if kind = ''+'' then a + b else a - b)), s2))
    \<and> (eval op1 s = (Inr left_val, s1) \<and> eval op2 s1 = (Inr right_val, s2) \<and>
        (\<not> isinstance_int left_val \<or> \<not> isinstance_int right_val) \<longrightarrow>
          eval (Binop_node kind op1 op2) s =
            (Inl (Error TYPE_ERROR ''Incompatible types for arithmetic operation''), s2))"
  using assms by (auto simp: super_error_def)

text \<open>
  \<^verbatim>\<open>inputi() - inputi()\<close> on the tokens 10 and 3 is 7: the left call reads first.
  \<^verbatim>\<open>1 + "a"\<close> is a type error. In \<^verbatim>\<open>u + inputi()\<close> with \<^verbatim>\<open>u\<close> undeclared the
  error of the left operand comes before the right operand reads its token.
\<close>

theorem binop_plus_minus_witness:
  "eval (Binop_node ''-'' (Fcall_node ''inputi'' []) (Fcall_node ''inputi'' []))
        (Interpreter [''10'', ''3'']) = (Inr (Int_val 7), Interpreter [])
   \<and> eval (Binop_node ''+'' (Int_node 1) (String_node ''a'')) (Interpreter []) =
       (Inl (Error TYPE_ERROR ''Incompatible types for arithmetic operation''), Interpreter [])
   \<and> eval (Binop_node ''+'' (Qname_node ''u'') (Fcall_node ''inputi'' [])) (Interpreter [''5'']) =
       (Inl (Error NAME_ERROR ''Variable u has not been defined''), Interpreter [''5''])"
proof -
  have l: "eval (Fcall_node ''inputi'' []) (Interpreter [''10'', ''3'']) =
             (Inr (Int_val 10), Interpreter [''3''])"
    by code_simp
  have r: "eval (Fcall_node ''inputi'' []) (Interpreter [''3'']) = (Inr (Int_val 3), Interpreter [])"
    by code_simp
  have u: "eval (Qname_node ''u'') (Interpreter [''5'']) =
             (Inl (Error NAME_ERROR ''Variable u has not been defined''), Interpreter [''5''])"
    by code_simp
  have minus: "eval (Binop_node ''-'' (Fcall_node ''inputi'' []) (Fcall_node ''inputi'' []))
        (Interpreter [''10'', ''3'']) = (Inr (Int_val 7), Interpreter [])"
    using binop_plus_minus [of "''-''" "Fcall_node ''inputi'' []" "Interpreter [''10'', ''3'']"
        ValueError "Interpreter [''3'']" "Fcall_node ''inputi'' []" "Int_val 10"
        "Interpreter []" 10 3 "Int_val 3"] l r
    by simp
  have plus: "eval (Binop_node ''+'' (Int_node 1) (String_node ''a'')) (Interpreter []) =
       (Inl (Error TYPE_ERROR ''Incompatible types for arithmetic operation''), Interpreter [])"
    using binop_plus_minus [of "''+''" "Int_node 1" "Interpreter []" ValueError "Interpreter []"
        "String_node ''a''" "Int_val 1" "Interpreter []" 1 0 "Str_val ''a''"]
    by simp
  have left: "eval (Binop_node ''+'' (Qname_node ''u'') (Fcall_node ''inputi'' []))
        (Interpreter [''5'']) =
       (Inl (Error NAME_ERROR ''Variable u has not been defined''), Interpreter [''5''])"
    using binop_plus_minus [of "''+''" "Qname_node ''u''" "Interpreter [''5'']"
        "Error NAME_ERROR ''Variable u has not been defined''" "Interpreter [''5'']"] u
    by simp
  from minus plus left show ?thesis by blast
qed

subsection \<open>Variables\<close>

text \<open>
  Claim C3. As long as \<open>v\<close> is not in the dictionary, reading \<open>v\<close> fails with a
  name error and so does assigning to it (before the right-hand side is evaluated), while
  declaring it succeeds and a read right after the declaration gives \<^verbatim>\<open>None\<close>. Once
  \<open>v\<close> is in the dictionary, declaring it fails with a name error. Over a run:
  statements executed from the fresh object without a declaration of \<open>v\<close> leave \<open>v\<close>
  out of the dictionary; statements executed without an error that contain a declaration
  of \<open>v\<close> leave it in; and after a declaration of \<open>v\<close> followed by statements none
  of which assigns to \<open>v\<close>, reading \<open>v\<close> gives \<^verbatim>\<open>None\<close> and no error.
\<close>

theorem declare_before_use:
  "(\<not> in_vars v s \<longrightarrow>
      eval (Qname_node v) s =
        (Inl (Error NAME_ERROR (''Variable '' @ v @ '' has not been defined'')), s)
    \<and> run_stmt (Assign_node v e) s =
        (Inl (Error NAME_ERROR (''Variable '' @ v @ '' has not been defined'')),
         s\<lparr>statement_count := statement_count s + 1\<rparr>)
    \<and> run_stmt (Vardef_node v) s =
        (Inr (), s\<lparr>statement_count := statement_count s + 1,
                   vars := dict_set v None_val (vars s),
                   variable_count := variable_count s + 1\<rparr>)
    \<and> eval (Qname_node v)
          (s\<lparr>statement_count := statement_count s + 1,
             vars := dict_set v None_val (vars s),
             variable_count := variable_count s + 1\<rparr>) =
        (Inr None_val, s\<lparr>statement_count := statement_count s + 1,
                          vars := dict_set v None_val (vars s),
                          variable_count := variable_count s + 1\<rparr>))
   \<and> (in_vars v s \<longrightarrow>
      run_stmt (Vardef_node v) s =
        (Inl (Error NAME_ERROR (''Variable '' @ v @ '' defined more than once'')),
         s\<lparr>statement_count := statement_count s + 1\<rparr>))
   \<and> (run_stmts stmts (Interpreter tokens) = (r, s) \<and> Vardef_node v \<notin> set stmts \<longrightarrow>
        \<not> in_vars v s)
   \<and> (run_stmts stmts s0 = (Inr (), s) \<and> Vardef_node v \<in> set stmts \<longrightarrow> in_vars v s)
   \<and> (run_stmts (pre @ [Vardef_node v]) s0 = (Inr (), s1) \<and> run_stmts post s1 = (r, s) \<and>
       (\<forall>e. Assign_node v e \<notin> set post) \<longrightarrow>
        eval (Qname_node v) s = (Inr None_val, s))"
proof -
  have a: "\<not> in_vars v s \<longrightarrow>
      eval (Qname_node v) s =
        (Inl (Error NAME_ERROR (''Variable '' @ v @ '' has not been defined'')), s)
    \<and> run_stmt (Assign_node v e) s =
        (Inl (Error NAME_ERROR (''Variable '' @ v @ '' has not been defined'')),
         s\<lparr>statement_count := statement_count s + 1\<rparr>)
    \<and> run_stmt (Vardef_node v) s =
        (Inr (), s\<lparr>statement_count := statement_count s + 1,
                   vars := dict_set v None_val (vars s),
                   variable_count := variable_count s + 1\<rparr>)
    \<and> eval (Qname_node v)
          (s\<lparr>statement_count := statement_count s + 1,
             vars := dict_set v None_val (vars s),
             variable_count := variable_count s + 1\<rparr>) =
        (Inr None_val, s\<lparr>statement_count := statement_count s + 1,
                          vars := dict_set v None_val (vars s),
                          variable_count := variable_count s + 1\<rparr>)"
    by (simp add: run_stmt_Assign run_stmt_Vardef assign_def def_var_def super_error_def
        in_vars_def map_of_dict_set)
  have b: "in_vars v s \<longrightarrow>
      run_stmt (Vardef_node v) s =
        (Inl (Error NAME_ERROR (''Variable '' @ v @ '' defined more than once'')),
         s\<lparr>statement_count := statement_count s + 1\<rparr>)"
    by (simp add: run_stmt_Vardef def_var_def super_error_def in_vars_def)
  have c: "run_stmts stmts (Interpreter tokens) = (r, s) \<and> Vardef_node v \<notin> set stmts \<longrightarrow>
        \<not> in_vars v s"
  proof (intro impI, elim conjE)
    assume run: "run_stmts stmts (Interpreter tokens) = (r, s)" and no: "Vardef_node v \<notin> set stmts"
    have "\<not> in_vars v (Interpreter tokens)" by (simp add: in_vars_def Interpreter_def)
    with run_stmts_vars_frame [OF run, of v] no show "\<not> in_vars v s" by blast
  qed
  have d: "run_stmts stmts s0 = (Inr (), s) \<and> Vardef_node v \<in> set stmts \<longrightarrow> in_vars v s"
    using run_stmts_declared by blast
  have e: "run_stmts (pre @ [Vardef_node v]) s0 = (Inr (), s1) \<and> run_stmts post s1 = (r, s) \<and>
       (\<forall>e. Assign_node v e \<notin> set post) \<longrightarrow>
        eval (Qname_node v) s = (Inr None_val, s)"
  proof (intro impI, elim conjE)
    assume p: "run_stmts (pre @ [Vardef_node v]) s0 = (Inr (), s1)"
      and q: "run_stmts post s1 = (r, s)" and na: "\<forall>e. Assign_node v e \<notin> set post"
    from run_stmts_snoc_Vardef_ok [OF p] have v1: "map_of (vars s1) v = Some None_val" .
    then have "in_vars v s1" by (simp add: in_vars_def)
    with run_stmts_vars_frame [OF q, of v] na v1 have "map_of (vars s) v = Some None_val"
      by simp
    then show "eval (Qname_node v) s = (Inr None_val, s)"
      by (simp add: in_vars_def)
  qed
  from a b c d e show ?thesis by blast
qed

text \<open>
  After \<^verbatim>\<open>print("a")\<close> the variable \<^verbatim>\<open>x\<close> is still unknown; after
  \<^verbatim>\<open>var x\<close> it reads as \<^verbatim>\<open>None\<close> and cannot be declared again.
\<close>

theorem declare_before_use_witness:
  "eval (Qname_node ''x'') (Interpreter []) =
     (Inl (Error NAME_ERROR ''Variable x has not been defined''), Interpreter [])
   \<and> run_stmt (Assign_node ''x'' (Int_node 1)) (Interpreter []) =
     (Inl (Error NAME_ERROR ''Variable x has not been defined''),
      (Interpreter [])\<lparr>statement_count := 1\<rparr>)
   \<and> run_stmt (Vardef_node ''x'')
        \<lparr>vars = [(''x'', None_val)], output_log = [''a''], inp = [],
         statement_count = 2, variable_count = 1, is_running = False\<rparr> =
     (Inl (Error NAME_ERROR ''Variable x defined more than once''),
      \<lparr>vars = [(''x'', None_val)], output_log = [''a''], inp = [],
       statement_count = 3, variable_count = 1, is_running = False\<rparr>)
   \<and> eval (Qname_node ''x'')
        \<lparr>vars = [(''x'', None_val)], output_log = [''a''], inp = [],
         statement_count = 2, variable_count = 1, is_running = False\<rparr> =
     (Inr None_val,
      \<lparr>vars = [(''x'', None_val)], output_log = [''a''], inp = [],
       statement_count = 2, variable_count = 1, is_running = False\<rparr>)
   \<and> \<not> in_vars ''x''
        \<lparr>vars = [], output_log = [''a''], inp = [],
         statement_count = 1, variable_count = 0, is_running = False\<rparr>"
proof -
  let ?print = "Fcall_node ''print'' [String_node ''a'']"
  let ?before = "\<lparr>vars = [], output_log = [''a''], inp = [],
         statement_count = 1, variable_count = 0, is_running = False\<rparr>"
  let ?after = "\<lparr>vars = [(''x'', None_val)], output_log = [''a''], inp = [],
         statement_count = 2, variable_count = 1, is_running = False\<rparr>"
  have fresh: "\<not> in_vars ''x'' (Interpreter [])" by code_simp
  have declared: "in_vars ''x'' ?after" by code_simp
  have r0: "run_stmts [?print] (Interpreter []) = (Inr (), ?before)" by code_simp
  have r1: "run_stmts ([] @ [Vardef_node ''x'']) ?before = (Inr (), ?after)" by code_simp
  have r2: "run_stmts [] ?after = (Inr (), ?after)" by code_simp
  have no_decl: "Vardef_node ''x'' \<notin> set [?print]" by simp
  have no_assign: "\<forall>e. Assign_node ''x'' e \<notin> set []" by simp
  note a = declare_before_use [where v = "''x''" and s = "Interpreter []" and e = "Int_node 1"]
  note b = declare_before_use [where v = "''x''" and s = ?after and ?s0.0 = ?before
      and pre = "[]" and ?s1.0 = ?after and post = "[]" and r = "Inr ()"]
  note c = declare_before_use [where v = "''x''" and s = ?before and stmts = "[?print]"
      and tokens = "[]" and r = "Inr ()"]
  from a fresh have
    "eval (Qname_node ''x'') (Interpreter []) =
       (Inl (Error NAME_ERROR ''Variable x has not been defined''), Interpreter [])"
    "run_stmt (Assign_node ''x'' (Int_node 1)) (Interpreter []) =
     (Inl (Error NAME_ERROR ''Variable x has not been defined''),
      (Interpreter [])\<lparr>statement_count := 1\<rparr>)"
    by (simp_all add: Interpreter_def)
  moreover from b declared have "run_stmt (Vardef_node ''x'') ?after =
     (Inl (Error NAME_ERROR ''Variable x defined more than once''),
      ?after\<lparr>statement_count := 3\<rparr>)"
    by simp
  moreover from b r1 r2 no_assign have "eval (Qname_node ''x'') ?after = (Inr None_val, ?after)"
    by blast
  moreover from c r0 no_decl have "\<not> in_vars ''x'' ?before"
    by blast
  ultimately show ?thesis by simp
qed

text \<open>
  Claim C8. A statement never removes a name from the dictionary; a name that is new
  after a statement is the name that the statement declares; and the value of every name
  other than the one that the statement declares or assigns is what it was (a name that
  was absent stays absent). The same holds over a list of statements: names stay, new
  names are declared names, and a name that no statement of the list declares or assigns
  keeps its value. Evaluating an expression leaves the whole dictionary as it is.
\<close>

theorem statements_keep_other_variables:
  "(run_stmt stmt s = (r, s') \<longrightarrow>
      (\<forall>w. in_vars w s \<longrightarrow> in_vars w s')
    \<and> (\<forall>w. in_vars w s' \<and> \<not> in_vars w s \<longrightarrow> stmt = Vardef_node w)
    \<and> (\<forall>w. stmt \<noteq> Vardef_node w \<and> (\<forall>e. stmt \<noteq> Assign_node w e) \<longrightarrow>
          map_of (vars s') w = map_of (vars s) w))
   \<and> (run_stmts stmts s = (r, s') \<longrightarrow>
      (\<forall>w. in_vars w s \<longrightarrow> in_vars w s')
    \<and> (\<forall>w. in_vars w s' \<and> \<not> in_vars w s \<longrightarrow> Vardef_node w \<in> set stmts)
    \<and> (\<forall>w. Vardef_node w \<notin> set stmts \<and> (\<forall>e. Assign_node w e \<notin> set stmts) \<longrightarrow>
          map_of (vars s') w = map_of (vars s) w))
   \<and> (eval expr s = (rv, s') \<longrightarrow> vars s' = vars s)"
  using run_stmt_vars_frame [of stmt s r s'] run_stmts_vars_frame [of stmts s r s'] eval_vars [of expr s rv s']
  by blast

text \<open>\<^verbatim>\<open>x = 5\<close> where \<^verbatim>\<open>x\<close> is 1 and \<^verbatim>\<open>y\<close> is 2: \<^verbatim>\<open>y\<close> stays 2.\<close>

theorem statements_keep_other_variables_witness:
  "run_stmt (Assign_node ''x'' (Int_node 5))
     \<lparr>vars = [(''x'', Int_val 1), (''y'', Int_val 2)], output_log = [], inp = [],
      statement_count = 0, variable_count = 2, is_running = True\<rparr> =
     (Inr (), \<lparr>vars = [(''x'', Int_val 5), (''y'', Int_val 2)], output_log = [], inp = [],
               statement_count = 1, variable_count = 2, is_running = True\<rparr>)
   \<and> in_vars ''y''
       \<lparr>vars = [(''x'', Int_val 5), (''y'', Int_val 2)], output_log = [], inp = [],
        statement_count = 1, variable_count = 2, is_running = True\<rparr>
   \<and> map_of (vars \<lparr>vars = [(''x'', Int_val 5), (''y'', Int_val 2)], output_log = [],
                     inp = [], statement_count = 1, variable_count = 2,
                     is_running = True\<rparr>) ''y'' = Some (Int_val 2)"
proof -
  let ?s = "\<lparr>vars = [(''x'', Int_val 1), (''y'', Int_val 2)], output_log = [], inp = [],
      statement_count = 0, variable_count = 2, is_running = True\<rparr>"
  let ?s' = "\<lparr>vars = [(''x'', Int_val 5), (''y'', Int_val 2)], output_log = [], inp = [],
      statement_count = 1, variable_count = 2, is_running = True\<rparr>"
  let ?stmt = "Assign_node ''x'' (Int_node 5)"
  have step: "run_stmt ?stmt ?s = (Inr (), ?s')" by code_simp
  have y: "in_vars ''y'' ?s" by code_simp
  have y2: "map_of (vars ?s) ''y'' = Some (Int_val 2)" by simp
  have other: "?stmt \<noteq> Vardef_node ''y'' \<and> (\<forall>e. ?stmt \<noteq> Assign_node ''y'' e)" by simp
  from statements_keep_other_variables [of ?stmt ?s "Inr ()" ?s' "[]" "Int_node 0"
      "Inr None_val"] step
  have "(\<forall>w. in_vars w ?s \<longrightarrow> in_vars w ?s')
    \<and> (\<forall>w. ?stmt \<noteq> Vardef_node w \<and> (\<forall>e. ?stmt \<noteq> Assign_node w e) \<longrightarrow>
          map_of (vars ?s') w = map_of (vars ?s) w)"
    by blast
  with y other have "in_vars ''y'' ?s' \<and> map_of (vars ?s') ''y'' = map_of (vars ?s) ''y''"
    by blast
  with step y2 show ?thesis by simp
qed

subsection \<open>The built-in calls\<close>

text \<open>
  Claim C4. For a call of \<^verbatim>\<open>print\<close> whose arguments are evaluated one after the
  other from left to right (argument \<open>i\<close> in the object \<open>ss ! i\<close> that argument
  \<open>i - 1\<close> has left, giving the value \<open>vs ! i\<close>): exactly one line is appended to
  the output channel of the last object, namely the textual forms of the values
  concatenated with nothing between them (the empty line when there is no argument), and
  the call returns \<^verbatim>\<open>None\<close>. The textual form of a string is the string itself, and
  that of an integer is the decimal numeral that \<^verbatim>\<open>int\<close> reads back as that
  integer.
\<close>

theorem print_writes_one_line:
  assumes "length ss = Suc (length args)" and "length vs = length args"
    and "\<forall>i<length args. eval (args ! i) (ss ! i) = (Inr (vs ! i), ss ! Suc i)"
  shows "call_func ''print'' args (ss ! 0) =
           (Inr None_val, (last ss)\<lparr>output_log := output_log (last ss) @ [concat (map str vs)]\<rparr>)
    \<and> str (Str_val t) = t \<and> python_int (str (Int_val n)) = Some n"
  using eval_args_chain [OF assms]
  by (simp add: call_func.simps super_output_def python_int_str_int)

text \<open>
  \<^verbatim>\<open>print(inputi(), "", -1230, inputi())\<close> on the tokens 1 and 2 writes the line
  \<^verbatim>\<open>1-12302\<close>, and \<^verbatim>\<open>print()\<close> writes the empty line.
\<close>

theorem print_writes_one_line_witness:
  "call_func ''print''
     [Fcall_node ''inputi'' [], String_node [], Int_node (- 1230), Fcall_node ''inputi'' []]
     (Interpreter [''1'', ''2'']) =
     (Inr None_val, (Interpreter [])\<lparr>output_log := [''1-12302'']\<rparr>)
   \<and> call_func ''print'' [] (Interpreter []) =
     (Inr None_val, (Interpreter [])\<lparr>output_log := [[]]\<rparr>)"
proof -
  let ?args = "[Fcall_node ''inputi'' [], String_node [], Int_node (- 1230),
                Fcall_node ''inputi'' []]"
  let ?ss = "[Interpreter [''1'', ''2''], Interpreter [''2''], Interpreter [''2''],
              Interpreter [''2''], Interpreter []]"
  let ?vs = "[Int_val 1, Str_val [], Int_val (- 1230), Int_val 2]"
  have e0: "eval (Fcall_node ''inputi'' []) (Interpreter [''1'', ''2'']) =
              (Inr (Int_val 1), Interpreter [''2''])" by code_simp
  have e3: "eval (Fcall_node ''inputi'' []) (Interpreter [''2'']) =
              (Inr (Int_val 2), Interpreter [])" by code_simp
  have chain: "\<forall>i<length ?args. eval (?args ! i) (?ss ! i) = (Inr (?vs ! i), ?ss ! Suc i)"
    using e0 e3 by (simp add: All_less_Suc)
  have line: "concat (map str ?vs) = ''1-12302''" by code_simp
  have a: "call_func ''print'' ?args (Interpreter [''1'', ''2'']) =
      (Inr None_val, (Interpreter [])\<lparr>output_log := [''1-12302'']\<rparr>)"
    using print_writes_one_line [of ?ss ?args ?vs "[]" 0] chain line
    by (simp add: Interpreter_def)
  have b: "call_func ''print'' [] (Interpreter []) =
      (Inr None_val, (Interpreter [])\<lparr>output_log := [[]]\<rparr>)"
    using print_writes_one_line [of "[Interpreter []]" "[]" "[]" "[]" 0]
    by (simp add: Interpreter_def)
  from a b show ?thesis by blast
qed

text \<open>
  Claim C6. A call of \<^verbatim>\<open>inputi\<close> with no argument takes the first token of the
  input channel and returns the integer it denotes, leaving the other tokens. With one
  argument, the argument is evaluated first, its textual form is written to the output
  channel as one line, and then the first token that remains is taken and its integer
  returned. (The token is one that \<^verbatim>\<open>int\<close> accepts, \<open>python_int t = Some n\<close>;
  on any other token \<^verbatim>\<open>int\<close> raises and the call returns nothing.)
\<close>

theorem inputi_reads_one_token:
  assumes "python_int t = Some n"
  shows "(inp s = t # ts \<longrightarrow>
            call_func ''inputi'' [] s = (Inr (Int_val n), s\<lparr>inp := ts\<rparr>))
    \<and> (eval e s = (Inr v, s1) \<and> inp s1 = t # ts \<longrightarrow>
            call_func ''inputi'' [e] s =
              (Inr (Int_val n), s1\<lparr>output_log := output_log s1 @ [str v], inp := ts\<rparr>))"
  using assms
  by (auto simp: call_func.simps read_int_def super_get_input_def super_output_def)

theorem inputi_reads_one_token_witness:
  "call_func ''inputi'' [] (Interpreter [''42'', ''7'']) = (Inr (Int_val 42), Interpreter [''7''])
   \<and> call_func ''inputi'' [String_node ''n? ''] (Interpreter [''-5'', ''7'']) =
       (Inr (Int_val (- 5)), (Interpreter [''7''])\<lparr>output_log := [''n? '']\<rparr>)"
proof -
  have p1: "python_int ''42'' = Some 42" by code_simp
  have p2: "python_int ''-5'' = Some (- 5)" by code_simp
  have a: "call_func ''inputi'' [] (Interpreter [''42'', ''7'']) =
             (Inr (Int_val 42), Interpreter [''7''])"
    using inputi_reads_one_token [OF p1, of "Interpreter [''42'', ''7'']" "[''7'']"]
    by (simp add: Interpreter_def)
  have b: "call_func ''inputi'' [String_node ''n? ''] (Interpreter [''-5'', ''7'']) =
       (Inr (Int_val (- 5)), (Interpreter [''7''])\<lparr>output_log := [''n? '']\<rparr>)"
    using inputi_reads_one_token [OF p2, of "Interpreter [''-5'', ''7'']" "[''7'']"
        "String_node ''n? ''" "Str_val ''n? ''" "Interpreter [''-5'', ''7'']"]
    by (simp add: Interpreter_def)
  from a b show ?thesis by blast
qed

text \<open>
  Claim C7, as amended. The callable names are \<^verbatim>\<open>print\<close> and \<^verbatim>\<open>inputi\<close> only.
  A call of \<^verbatim>\<open>inputi\<close> with two or more arguments fails with a name error whose
  message is \<^verbatim>\<open>No inputi() function found that takes > 1 parameter\<close>, and a call of
  any other name than \<^verbatim>\<open>print\<close> and \<^verbatim>\<open>inputi\<close> fails with a name error whose
  message says that the function has not been defined. In both cases no argument is
  evaluated: the object is unchanged.
\<close>

theorem closed_set_of_callables:
  "(2 \<le> length args \<longrightarrow>
      call_func ''inputi'' args s =
        (Inl (Error NAME_ERROR ''No inputi() function found that takes > 1 parameter''), s))
   \<and> (func_name \<noteq> ''print'' \<and> func_name \<noteq> ''inputi'' \<longrightarrow>
      call_func func_name args s =
        (Inl (Error NAME_ERROR (''Function '' @ func_name @ '' has not been defined'')), s))"
  by (auto simp: call_func.simps super_error_def)

theorem closed_set_of_callables_witness:
  "call_func ''inputi'' [Int_node 1, Int_node 2] (Interpreter []) =
     (Inl (Error NAME_ERROR ''No inputi() function found that takes > 1 parameter''),
      Interpreter [])
   \<and> call_func ''foo'' [Fcall_node ''print'' [Int_node 1]] (Interpreter []) =
     (Inl (Error NAME_ERROR ''Function foo has not been defined''), Interpreter [])"
  using closed_set_of_callables [of "[Int_node 1, Int_node 2]" "Interpreter []" "''foo''"]
    closed_set_of_callables [of "[Fcall_node ''print'' [Int_node 1]]" "Interpreter []" "''foo''"]
  by simp

text \<open>
  The message of the arity error starts with a capital letter: it is not the text
  \<^verbatim>\<open>no inputi() function found that takes > 1 parameter\<close>.
\<close>

theorem inputi_arity_message_counterexample:
  "call_func ''inputi'' [Int_node 1, Int_node 2] (Interpreter []) \<noteq>
     (Inl (Error NAME_ERROR ''no inputi() function found that takes > 1 parameter''),
      Interpreter [])"
  by code_simp

text \<open>
  Claim C10. A \<^verbatim>\<open>None\<close> among the values of the arguments of \<^verbatim>\<open>print\<close> is no
  error: its textual form \<^verbatim>\<open>None\<close> stands in the line at its place. In particular,
  printing a variable that holds \<^verbatim>\<open>None\<close> (declared and never assigned) writes the
  line \<^verbatim>\<open>None\<close>.
\<close>

theorem print_of_None:
  "(eval_args args s = (Inr (vs1 @ None_val # vs2), s') \<longrightarrow>
      call_func ''print'' args s =
        (Inr None_val,
         s'\<lparr>output_log := output_log s' @ [concat (map str vs1) @ ''None'' @ concat (map str vs2)]\<rparr>))
   \<and> (map_of (vars s) v = Some None_val \<longrightarrow>
      call_func ''print'' [Qname_node v] s =
        (Inr None_val, s\<lparr>output_log := output_log s @ [''None'']\<rparr>))"
  by (auto simp: call_func.simps super_output_def in_vars_def)

text \<open>\<^verbatim>\<open>var x; print("x=", x);\<close> writes \<^verbatim>\<open>x=None\<close>.\<close>

theorem print_of_None_witness:
  "call_func ''print'' [String_node ''x='', Qname_node ''x'']
     \<lparr>vars = [(''x'', None_val)], output_log = [], inp = [],
      statement_count = 2, variable_count = 1, is_running = True\<rparr> =
     (Inr None_val,
      \<lparr>vars = [(''x'', None_val)], output_log = [''x=None''], inp = [],
       statement_count = 2, variable_count = 1, is_running = True\<rparr>)
   \<and> call_func ''print'' [Qname_node ''x'']
     \<lparr>vars = [(''x'', None_val)], output_log = [], inp = [],
      statement_count = 2, variable_count = 1, is_running = True\<rparr> =
     (Inr None_val,
      \<lparr>vars = [(''x'', None_val)], output_log = [''None''], inp = [],
       statement_count = 2, variable_count = 1, is_running = True\<rparr>)"
proof -
  let ?s = "\<lparr>vars = [(''x'', None_val)], output_log = [], inp = [],
      statement_count = 2, variable_count = 1, is_running = True\<rparr>"
  have args: "eval_args [String_node ''x='', Qname_node ''x''] ?s =
                (Inr ([Str_val ''x=''] @ None_val # []), ?s)" by code_simp
  have x: "map_of (vars ?s) ''x'' = Some None_val" by simp
  from print_of_None [of "[String_node ''x='', Qname_node ''x'']" ?s "[Str_val ''x='']" "[]" ?s
      "''x''"] args x
  show ?thesis by simp
qed

subsection \<open>Errors\<close>

text \<open>
  Claim C5. When the statements \<open>pre\<close> have been executed without an error and the
  next statement raises the error \<open>e\<close>, the whole statement list ends with \<open>e\<close>
  (its kind and message) in the object as it was when \<open>e\<close> was raised, whatever
  statements follow: none of them is executed, as the statement counter shows. The
  lines written before the error are still there: the output of each earlier object is a
  prefix of the output of the later one. \<^verbatim>\<open>run\<close> ends with the same error in the
  same object. Inside a statement the error of an expression is passed on at once: an
  assignment whose right-hand side fails does not write the variable, and a call of
  \<^verbatim>\<open>print\<close> with a failing argument evaluates no later argument and writes no
  line.
\<close>

theorem first_error_aborts_run:
  assumes "run_stmts pre s = (Inr (), s1)" and "run_stmt stmt s1 = (Inl e, s2)"
  shows "run_stmts (pre @ stmt # post) s = (Inl e, s2)
    \<and> prefix (output_log s) (output_log s1) \<and> prefix (output_log s1) (output_log s2)
    \<and> statement_count s2 = statement_count s + length pre + 1
    \<and> (find_main prog = Some main \<and> fn_statements main = pre @ stmt # post \<and>
        s = s0\<lparr>is_running := True\<rparr> \<longrightarrow> run prog s0 = (Inl e, s2))
    \<and> (in_vars v t \<and> eval ex (t\<lparr>statement_count := statement_count t + 1\<rparr>) = (Inl e', t') \<longrightarrow>
        run_stmt (Assign_node v ex) t = (Inl e', t') \<and> vars t' = vars t)
    \<and> (eval_args as t = (Inr vs, t1) \<and> eval a t1 = (Inl e', t2) \<longrightarrow>
        call_func ''print'' (as @ a # bs) t = (Inl e', t2) \<and>
        prefix (output_log t) (output_log t2))"
proof -
  have r: "run_stmts (pre @ stmt # post) s = (Inl e, s2)"
    using assms by (simp add: run_stmts_append)
  have asg: "run_stmt (Assign_node v ex) t = (Inl e', t') \<and> vars t' = vars t"
    if "in_vars v t" and "eval ex (t\<lparr>statement_count := statement_count t + 1\<rparr>) = (Inl e', t')"
    using that eval_vars [OF that(2)] by (simp add: run_stmt_Assign assign_def in_vars_def)
  have prt: "call_func ''print'' (as @ a # bs) t = (Inl e', t2) \<and>
        prefix (output_log t) (output_log t2)"
    if "eval_args as t = (Inr vs, t1)" and "eval a t1 = (Inl e', t2)"
  proof -
    from that have ea: "eval_args (as @ a # bs) t = (Inl e', t2)"
      by (simp add: eval_args_append)
    from eval_only_channels(3) [OF ea] have "prefix (output_log t) (output_log t2)"
      by (simp add: only_channels_def)
    with ea show ?thesis by (simp add: call_func.simps)
  qed
  have cnt: "statement_count s2 = statement_count s + length pre + 1"
    using run_stmts_counts [OF assms(1)] run_stmt_counts [OF assms(2)] by simp
  have pf: "prefix (output_log s) (output_log s1) \<and> prefix (output_log s1) (output_log s2)"
    using run_stmts_counts [OF assms(1)] run_stmt_counts [OF assms(2)] by simp
  have rn: "run prog s0 = (Inl e, s2)"
    if "find_main prog = Some main" and "fn_statements main = pre @ stmt # post"
      and "s = s0\<lparr>is_running := True\<rparr>"
    using that r by (simp add: run_def)
  from r pf cnt rn asg prt show ?thesis by blast
qed

text \<open>
  \<^verbatim>\<open>print("a"); print(x); print("b");\<close> with \<^verbatim>\<open>x\<close> undeclared: the run ends with
  the name error after two statements, and the line \<^verbatim>\<open>a\<close> is the whole output.
\<close>

theorem first_error_aborts_run_witness:
  "run (Program [Func ''main'' []
          [Fcall_node ''print'' [String_node ''a''], Fcall_node ''print'' [Qname_node ''x''],
           Fcall_node ''print'' [String_node ''b'']]])
       (Interpreter []) =
     (Inl (Error NAME_ERROR ''Variable x has not been defined''),
      \<lparr>vars = [], output_log = [''a''], inp = [],
       statement_count = 2, variable_count = 0, is_running = True\<rparr>)"
proof -
  let ?pa = "Fcall_node ''print'' [String_node ''a'']"
  let ?px = "Fcall_node ''print'' [Qname_node ''x'']"
  let ?pb = "Fcall_node ''print'' [String_node ''b'']"
  let ?main = "Func ''main'' [] [?pa, ?px, ?pb]"
  let ?sa = "\<lparr>vars = [], output_log = [], inp = [],
       statement_count = 0, variable_count = 0, is_running = True\<rparr>"
  let ?sb = "\<lparr>vars = [], output_log = [''a''], inp = [],
       statement_count = 1, variable_count = 0, is_running = True\<rparr>"
  let ?sc = "\<lparr>vars = [], output_log = [''a''], inp = [],
       statement_count = 2, variable_count = 0, is_running = True\<rparr>"
  let ?e = "Error NAME_ERROR ''Variable x has not been defined''"
  have pre: "run_stmts [?pa] ?sa = (Inr (), ?sb)" by code_simp
  have err: "run_stmt ?px ?sb = (Inl ?e, ?sc)" by code_simp
  have fm: "find_main (Program [?main]) = Some ?main" by code_simp
  from first_error_aborts_run [OF pre err, of "[?pb]" "Program [?main]" ?main "Interpreter []"] fm
  have "run (Program [?main]) (Interpreter []) = (Inl ?e, ?sc)"
    by (simp add: Interpreter_def)
  then show ?thesis .
qed

subsection \<open>Nodes of other kinds\<close>

text \<open>
  Claim C9. A node that is neither an integer literal, a string literal, a variable
  reference, a call, a \<^verbatim>\<open>+\<close> node nor a \<^verbatim>\<open>-\<close> node evaluates to \<^verbatim>\<open>None\<close>
  without an error and without any effect on the object.
\<close>

theorem eval_other_kind_is_None:
  assumes "\<forall>n. expr \<noteq> Int_node n" and "\<forall>t. expr \<noteq> String_node t"
    and "\<forall>v. expr \<noteq> Qname_node v" and "\<forall>f args. expr \<noteq> Fcall_node f args"
    and "\<forall>a b. expr \<noteq> Binop_node ''+'' a b" and "\<forall>a b. expr \<noteq> Binop_node ''-'' a b"
  shows "eval expr s = (Inr None_val, s)"
  using assms by (cases expr) auto

theorem eval_other_kind_is_None_witness:
  "eval (Binop_node ''*'' (Int_node 2) (Qname_node ''undeclared'')) (Interpreter []) =
     (Inr None_val, Interpreter [])
   \<and> eval Other_node (Interpreter []) = (Inr None_val, Interpreter [])
   \<and> eval (Vardef_node ''x'') (Interpreter []) = (Inr None_val, Interpreter [])
   \<and> eval (Assign_node ''x'' (Int_node 1)) (Interpreter []) = (Inr None_val, Interpreter [])"
  using eval_other_kind_is_None [of "Binop_node ''*'' (Int_node 2) (Qname_node ''undeclared'')" "Interpreter []"]
    eval_other_kind_is_None [of Other_node "Interpreter []"]
    eval_other_kind_is_None [of "Vardef_node ''x''" "Interpreter []"]
    eval_other_kind_is_None [of "Assign_node ''x'' (Int_node 1)" "Interpreter []"]
  by simp

end
